theory Spec2Isabelle
  imports Main "HOL-Library.AList" "HOL-Library.Word"
begin

section \<open>JavaScript values\<close>

text \<open>
  The bodies that travel between the storefront, the facade and the upstream API are
  JSON documents held in JavaScript variables. \<open>JUndefined\<close> is what reading an absent
  property yields. An object is the list of its own properties; the first binding of a
  key is the one a read sees.

  A number of the model is an integer from \<open>-2^53\<close> up to \<open>2^53 - 1\<close>: these are
  integers a JavaScript number holds exactly and prints in full. The type is the signed
  54-bit word, read by \<open>sint\<close>; the model does no arithmetic on numbers. Fractions,
  \<open>NaN\<close>, the infinities and larger magnitudes are outside the model.
\<close>

type_synonym number = "54 word"

datatype json =
    JUndefined
  | JNull
  | JBool bool
  | JNum number
  | JStr string
  | JArr "json list"
  | JObj "(string \<times> json) list"

text \<open>Truthiness, as \<open>if (v)\<close>, \<open>v && ...\<close> and \<open>v || ...\<close> test it.\<close>

fun truthy :: "json \<Rightarrow> bool" where
  "truthy JUndefined = False"
| "truthy JNull = False"
| "truthy (JBool b) = b"
| "truthy (JNum n) = (n \<noteq> 0)"
| "truthy (JStr s) = (s \<noteq> [])"
| "truthy (JArr xs) = True"
| "truthy (JObj kvs) = True"

text \<open>\<open>a || b\<close>: the left operand itself when it is truthy, else the right one.\<close>

definition js_or :: "json \<Rightarrow> json \<Rightarrow> json" where
  "js_or a b = (if truthy a then a else b)"

text \<open>\<open>typeof v === 'object'\<close> (which holds of \<open>null\<close> and of arrays too).\<close>

fun typeof_object :: "json \<Rightarrow> bool" where
  "typeof_object JNull = True"
| "typeof_object (JArr xs) = True"
| "typeof_object (JObj kvs) = True"
| "typeof_object v = False"

text \<open>\<open>Array.isArray(v)\<close>.\<close>

fun isArray :: "json \<Rightarrow> bool" where
  "isArray (JArr xs) = True"
| "isArray v = False"

text \<open>
  Reading a property of \<open>undefined\<close> or \<open>null\<close> throws a TypeError; \<open>nullish\<close> is the
  test a model of \<open>v.k\<close> makes first. On every other value \<open>js_get v k\<close> is the value
  of \<open>v.k\<close> for the property names the source reads (none of them is inherited from a
  builtin prototype): the own property of an object, \<open>undefined\<close> otherwise.
\<close>

fun nullish :: "json \<Rightarrow> bool" where
  "nullish JUndefined = True"
| "nullish JNull = True"
| "nullish v = False"

fun js_get :: "json \<Rightarrow> string \<Rightarrow> json" where
  "js_get (JObj kvs) k = (case map_of kvs k of Some v \<Rightarrow> v | None \<Rightarrow> JUndefined)"
| "js_get v k = JUndefined"

text \<open>The decimal numeral of a natural number and of an integer.\<close>

fun decimal_nat :: "nat \<Rightarrow> string" where
  "decimal_nat n =
     (if n < 10 then [''0123456789'' ! n]
      else decimal_nat (n div 10) @ [''0123456789'' ! (n mod 10)])"

declare decimal_nat.simps [simp del]

definition decimal_int :: "int \<Rightarrow> string" where
  "decimal_int i = (if i < 0 then CHR ''-'' # decimal_nat (nat (- i)) else decimal_nat (nat i))"

text \<open>
  \<open>String(n)\<close>, which is also what a template literal \<open>`${n}`\<close> prints, on a number of
  the model: an integer below \<open>10^21\<close> in magnitude that the number holds exactly, so
  JavaScript prints its decimal numeral in full, with a minus sign when negative.
\<close>

definition number_to_string :: "number \<Rightarrow> string" where
  "number_to_string n = decimal_int (sint n)"

fun join_comma :: "string list \<Rightarrow> string" where
  "join_comma [] = []"
| "join_comma [s] = s"
| "join_comma (s # t # ss) = s @ '','' @ join_comma (t # ss)"

text \<open>
  \<open>String(v)\<close>, the conversion \<open>new Error(v)\<close> applies to its argument. An array prints
  its elements joined by commas, \<open>null\<close> and \<open>undefined\<close> elements as the empty string.
  An object prints as \<open>[object Object]\<close>, unless it has an own property \<open>toString\<close>
  (never callable in a JSON document), on which the conversion throws a TypeError:
  \<open>None\<close>.
\<close>

fun to_string :: "json \<Rightarrow> string option" where
  "to_string JUndefined = Some ''undefined''"
| "to_string JNull = Some ''null''"
| "to_string (JBool b) = Some (if b then ''true'' else ''false'')"
| "to_string (JNum n) = Some (number_to_string n)"
| "to_string (JStr s) = Some s"
| "to_string (JArr xs) =
     map_option join_comma
       (those (map (\<lambda>x. if nullish x then Some [] else to_string x) xs))"
| "to_string (JObj kvs) =
     (if ''toString'' \<in> fst ` set kvs then None else Some ''[object Object]'')"

section \<open>The HTTP client adapter (src/common/celler-hut-client.ts)\<close>

datatype verb = GET | POST | PUT

text \<open>The request configuration axios hands to the request interceptor and then sends.\<close>

record request =
  verb_of :: verb
  url :: string
  body :: json
  params :: json
  headers :: "(string \<times> string) list"

text \<open>An \<open>AxiosResponse\<close>: the HTTP status and the parsed body.\<close>

record response =
  status :: int
  statusText :: string
  data :: json

text \<open>
  What a promise rejects with or a \<open>throw\<close> throws: an \<open>AxiosError\<close> (its \<open>code\<close>,
  its message and, when the server answered, the response), an \<open>Error\<close> made by
  \<open>new Error(message)\<close> with the two properties the adapter may hang on it
  (\<open>statusCode\<close>, \<open>errors\<close>; \<open>None\<close> when never assigned), or a TypeError of the
  runtime.
\<close>

datatype thrown =
    AxiosError "string option" string "response option"
  | Error string "int option" "json option"
  | TypeError

text \<open>\<open>error.response\<close>, \<open>error.code\<close> and \<open>error.message\<close> on any thrown value.\<close>

fun response_of :: "thrown \<Rightarrow> response option" where
  "response_of (AxiosError c m r) = r"
| "response_of e = None"

fun code_of :: "thrown \<Rightarrow> string option" where
  "code_of (AxiosError c m r) = c"
| "code_of e = None"

fun message_of :: "thrown \<Rightarrow> string" where
  "message_of (AxiosError c m r) = m"
| "message_of (Error m sc es) = m"
| "message_of TypeError = []"

fun statusCode_of :: "thrown \<Rightarrow> int option" where
  "statusCode_of (Error m sc es) = sc"
| "statusCode_of e = None"

text \<open>
  The module-level slot \<open>authToken\<close> with its setter and getter, and the request
  interceptor (lines 38-58), which overwrites the Authorization header when the slot
  holds a non-empty string. Its second handler hands a request error on as it is.
\<close>

definition setAuthToken :: "string option \<Rightarrow> string option \<Rightarrow> string option" where
  "setAuthToken token authToken = token"

definition getAuthToken :: "string option \<Rightarrow> string option" where
  "getAuthToken authToken = authToken"

definition request_interceptor :: "string option \<Rightarrow> request \<Rightarrow> request" where
  "request_interceptor authToken config =
     (case authToken of
        Some t \<Rightarrow>
          (if t \<noteq> []
           then config\<lparr>headers := AList.update ''Authorization'' (''Bearer '' @ t) (headers config)\<rparr>
           else config)
      | None \<Rightarrow> config)"

text \<open>The success handler of the response interceptor (lines 62-84).\<close>

definition onFulfilled :: "response \<Rightarrow> response" where
  "onFulfilled response =
     (if truthy (data response) \<and> typeof_object (data response) then
        (if js_get (data response) ''status'' = JStr ''success''
            \<and> js_get (data response) ''data'' \<noteq> JUndefined
         then response\<lparr>data := js_get (data response) ''data''\<rparr>
         else response)
      else response)"

text \<open>
  The error handler of the response interceptor (lines 85-128). \<open>error.response?.data\<close>
  is \<open>undefined\<close> when the error has no response. The timeout and network branches
  and the default (lines 110-127) are \<open>network_errors\<close>.
\<close>

definition network_errors :: "thrown \<Rightarrow> thrown" where
  "network_errors error =
     (if code_of error = Some ''ECONNABORTED'' then
        Error ''Request timeout - Ekasi Cart API not responding'' None None
      else if code_of error = Some ''ERR_NETWORK'' then
        Error ''Network error - Unable to reach Ekasi Cart API'' None None
      else error)"

definition onRejected :: "thrown \<Rightarrow> thrown" where
  "onRejected error =
     (case response_of error of
        None \<Rightarrow> network_errors error
      | Some r \<Rightarrow>
          (if truthy (data r) then
             (let errorData = data r in
              if js_get errorData ''status'' = JStr ''error'' then
                (case to_string (js_or (js_get errorData ''message'') (JStr ''An error occurred'')) of
                   None \<Rightarrow> TypeError
                 | Some m \<Rightarrow>
                     Error m (Some (status r)) (Some (js_or (js_get errorData ''errors'') (JObj []))))
              else network_errors error)
           else network_errors error))"

text \<open>
  One call through \<open>cellerHutAPI\<close>: the request interceptor, the transport (axios with
  the instance's base URL, timeout and default headers, which settles every exchange as
  a response or an error), then the response interceptor.
\<close>

type_synonym transport = "request \<Rightarrow> thrown + response"

definition cellerHutAPI :: "string option \<Rightarrow> transport \<Rightarrow> request \<Rightarrow> thrown + response" where
  "cellerHutAPI authToken transport config =
     (case transport (request_interceptor authToken config) of
        Inr response \<Rightarrow> Inr (onFulfilled response)
      | Inl error \<Rightarrow> Inl (onRejected error))"

section \<open>The collaborators of the facade\<close>

text \<open>
  The order facade imports three functions from \<open>../common/data-transformer\<close> and two
  enumerations from \<open>./entities/order.entity\<close>; these files are outside the sources at
  hand, so whatever they compute is a parameter of the model. A transformer either
  throws or returns: \<open>transformCellerHutOrder\<close> returns an \<open>Order\<close>, an object, given
  by the list of its properties. \<open>Number\<close> is JavaScript's conversion to a number, whose
  results on strings are outside the integers of the model.
\<close>

type_synonym order = "(string \<times> json) list"

record deps =
  transformCellerHutOrder :: "json \<Rightarrow> thrown + order"
  transformPagination :: "json \<Rightarrow> thrown + json"
  transformOrderForCellerHut :: "json \<Rightarrow> thrown + json"
  Number :: "json \<Rightarrow> json"
  OrderStatusType_PENDING :: json
  PaymentStatusType_PENDING :: json

section \<open>The order facade (class CellerHutOrdersService)\<close>

text \<open>
  \<open>api\<close> is \<open>cellerHutAPI\<close> as the facade sees it: a request is answered by a response
  or rejected. A method returns what its promise settles to, \<open>Inl\<close> the thrown value,
  together with the requests it issued, in order. Writes to the console are not
  modelled, except where printing converts a value and the conversion can throw.
\<close>

type_synonym api = "request \<Rightarrow> thrown + response"

type_synonym outcome = "(thrown + json) \<times> request list"

text \<open>\<open>try { body } catch (error) { handler }\<close>.\<close>

definition catch :: "thrown + 'a \<Rightarrow> (thrown \<Rightarrow> thrown + 'a) \<Rightarrow> thrown + 'a" where
  "catch tried handler = (case tried of Inl error \<Rightarrow> handler error | Inr v \<Rightarrow> Inr v)"

text \<open>
  \<open>xs.map(f)\<close> for an \<open>f\<close> that may throw: the first throw ends the loop. (\<open>map\<close> also
  hands \<open>f\<close> the index and the array, which a function of one parameter ignores.)
\<close>

fun map_throwing :: "('a \<Rightarrow> thrown + 'b) \<Rightarrow> 'a list \<Rightarrow> thrown + 'b list" where
  "map_throwing f [] = Inr []"
| "map_throwing f (x # xs) =
     (case f x of
        Inl error \<Rightarrow> Inl error
      | Inr y \<Rightarrow> (case map_throwing f xs of Inl error \<Rightarrow> Inl error | Inr ys \<Rightarrow> Inr (y # ys)))"

text \<open>
  The own enumerable properties \<open>{...v}\<close> copies: those of an object, the indexed elements
  of an array, the indexed characters of a string, none of any other value.
\<close>

fun spread :: "json \<Rightarrow> (string \<times> json) list" where
  "spread (JObj kvs) = kvs"
| "spread (JArr xs) = zip (map decimal_nat [0..<length xs]) xs"
| "spread (JStr s) = zip (map decimal_nat [0..<length s]) (map (\<lambda>c. JStr [c]) s)"
| "spread v = []"

text \<open>Assigning properties one after the other: a later binding of a key replaces the earlier.\<close>

definition assign :: "(string \<times> json) list \<Rightarrow> (string \<times> json) list \<Rightarrow> (string \<times> json) list" where
  "assign target source = fold (\<lambda>(k, v). AList.update k v) source target"

text \<open>\<open>token ? { Authorization: `Bearer ${token}` } : {}\<close>.\<close>

definition auth_headers :: "string option \<Rightarrow> (string \<times> string) list" where
  "auth_headers token =
     (case token of
        Some t \<Rightarrow> (if t \<noteq> [] then [(''Authorization'', ''Bearer '' @ t)] else [])
      | None \<Rightarrow> [])"

definition get_request :: "string \<Rightarrow> json \<Rightarrow> (string \<times> string) list \<Rightarrow> request" where
  "get_request u ps hs = \<lparr>verb_of = GET, url = u, body = JUndefined, params = ps, headers = hs\<rparr>"

definition post_request :: "string \<Rightarrow> json \<Rightarrow> (string \<times> string) list \<Rightarrow> request" where
  "post_request u d hs = \<lparr>verb_of = POST, url = u, body = d, params = JUndefined, headers = hs\<rparr>"

definition put_request :: "string \<Rightarrow> json \<Rightarrow> (string \<times> string) list \<Rightarrow> request" where
  "put_request u d hs = \<lparr>verb_of = PUT, url = u, body = d, params = JUndefined, headers = hs\<rparr>"

text \<open>\<open>throw new Error(message)\<close>.\<close>

definition throw_Error :: "string \<Rightarrow> thrown + 'a" where
  "throw_Error m = Inl (Error m None None)"

text \<open>\<open>return transformCellerHutOrder(response.data)\<close>.\<close>

definition transformed :: "deps \<Rightarrow> json \<Rightarrow> thrown + json" where
  "transformed D d =
     (case transformCellerHutOrder D d of Inl error \<Rightarrow> Inl error | Inr ord \<Rightarrow> Inr (JObj ord))"

subsection \<open>create (lines 23-64)\<close>

definition create_response :: "deps \<Rightarrow> response \<Rightarrow> thrown + json" where
  "create_response D response =
     (if nullish (data response) then Inl TypeError
      else
        (let orderData = js_or (js_get (data response) ''order'') (data response);
             paymentData = js_or (js_get (data response) ''payment'') JNull
         in case transformCellerHutOrder D orderData of
              Inl error \<Rightarrow> Inl error
            | Inr transformedOrder \<Rightarrow>
                (if truthy paymentData
                 then Inr (JObj (AList.update ''payment'' paymentData transformedOrder))
                 else Inr (JObj transformedOrder))))"

definition create :: "deps \<Rightarrow> api \<Rightarrow> json \<Rightarrow> string option \<Rightarrow> outcome" where
  "create D api createOrderDto token =
     (let failed = (\<lambda>error. throw_Error ''Failed to create order in Ekasi Cart API'') in
      case transformOrderForCellerHut D createOrderDto of
        Inl error \<Rightarrow> (failed error, [])
      | Inr cellerHutOrderData \<Rightarrow>
          (let req = post_request ''/ecommerce/orders'' cellerHutOrderData (auth_headers token)
           in (catch
                 (case api req of
                    Inl error \<Rightarrow> Inl error
                  | Inr response \<Rightarrow> create_response D response)
                 failed,
               [req])))"

subsection \<open>getOrders (lines 69-115)\<close>

record GetOrdersDto =
  limit :: json
  page :: json
  customer_id :: json
  tracking_number :: json
  search :: json
  shop_id :: json

text \<open>
  The paginator built from a response body (lines 100-110, and again 274-283 and
  310-319): the transformed orders when the body is an array, the empty list otherwise,
  under the key \<open>data\<close>, then the properties of the pagination spread over it.
\<close>

definition order_page :: "deps \<Rightarrow> json \<Rightarrow> thrown + json" where
  "order_page D d =
     (case (case d of JArr xs \<Rightarrow> map_throwing (transformCellerHutOrder D) xs | _ \<Rightarrow> Inr []) of
        Inl error \<Rightarrow> Inl error
      | Inr transformedData \<Rightarrow>
          (case transformPagination D d of
             Inl error \<Rightarrow> Inl error
           | Inr pagination \<Rightarrow>
               Inr (JObj (assign [(''data'', JArr (map JObj transformedData))] (spread pagination)))))"

definition getOrders_params :: "deps \<Rightarrow> GetOrdersDto \<Rightarrow> json" where
  "getOrders_params D dto =
     JObj ([(''page'', js_or (page dto) (JNum 1)), (''limit'', js_or (limit dto) (JNum 15))]
       @ (if truthy (customer_id dto) then [(''customer_id'', customer_id dto)] else [])
       @ (if truthy (tracking_number dto) then [(''tracking_number'', tracking_number dto)] else [])
       @ (if truthy (shop_id dto) \<and> shop_id dto \<noteq> JStr ''undefined''
          then [(''shop_id'', Number D (shop_id dto))] else [])
       @ (if truthy (search dto) then [(''search'', search dto)] else []))"

definition getOrders :: "deps \<Rightarrow> api \<Rightarrow> GetOrdersDto \<Rightarrow> string option \<Rightarrow> outcome" where
  "getOrders D api dto token =
     (let req = get_request ''/ecommerce/orders'' (getOrders_params D dto) (auth_headers token)
      in (catch
            (case api req of
               Inl error \<Rightarrow> Inl error
             | Inr response \<Rightarrow> order_page D (data response))
            (\<lambda>error. throw_Error ''Failed to fetch orders from Ekasi Cart API''),
          [req]))"

subsection \<open>getOrderByIdOrTrackingNumber (lines 120-167)\<close>

text \<open>The object assigned to \<open>transformedOrder.gps_tracking\<close> (lines 148-155).\<close>

definition gps_tracking :: "json \<Rightarrow> json" where
  "gps_tracking orderData =
     JObj [(''trackingEnabled'', js_get orderData ''tracking_enabled''),
           (''trackingUrl'', js_get orderData ''tracking_url''),
           (''deliveryService'', js_get orderData ''delivery_service''),
           (''orderId'', js_get orderData ''id''),
           (''orderNumber'', js_get orderData ''tracking_number''),
           (''orderStatus'', js_get orderData ''order_status'')]"

text \<open>
  Lines 139-159. The template literal of line 147 prints \<open>orderData.tracking_number\<close>,
  a conversion that can throw.
\<close>

definition order_with_tracking :: "deps \<Rightarrow> response \<Rightarrow> thrown + json" where
  "order_with_tracking D response =
     (let orderData = data response in
      case transformCellerHutOrder D orderData of
        Inl error \<Rightarrow> Inl error
      | Inr transformedOrder \<Rightarrow>
          (if nullish orderData then Inl TypeError
           else if truthy (js_get orderData ''tracking_enabled'')
                   \<and> truthy (js_get orderData ''tookan_job_id'') then
             (case to_string (js_get orderData ''tracking_number'') of
                None \<Rightarrow> Inl TypeError
              | Some printed \<Rightarrow>
                  Inr (JObj (AList.update ''gps_tracking'' (gps_tracking orderData) transformedOrder)))
           else Inr (JObj transformedOrder)))"

definition getOrderByIdOrTrackingNumber :: "deps \<Rightarrow> api \<Rightarrow> string \<Rightarrow> string option \<Rightarrow> outcome" where
  "getOrderByIdOrTrackingNumber D api ident token =
     (let hs = auth_headers token;
          by_id = get_request (''/ecommerce/orders/'' @ ident) JUndefined hs;
          by_tracking = get_request (''/ecommerce/orders/tracking/'' @ ident) JUndefined hs;
          not_found = (\<lambda>error. throw_Error (''Order with ID/tracking \"'' @ ident @ ''\" not found''))
      in case api by_id of
           Inr response \<Rightarrow> (catch (order_with_tracking D response) not_found, [by_id])
         | Inl error \<Rightarrow>
             (catch
                (case api by_tracking of
                   Inl error' \<Rightarrow> Inl error'
                 | Inr response \<Rightarrow> order_with_tracking D response)
                not_found,
              [by_id, by_tracking]))"

subsection \<open>update, cancel, getOrderStatus, updateOrderStatus, updatePaymentStatus (lines 172-255)\<close>

definition update :: "deps \<Rightarrow> api \<Rightarrow> number \<Rightarrow> json \<Rightarrow> outcome" where
  "update D api ident updateOrderDto =
     (let failed = (\<lambda>error. throw_Error (''Failed to update order '' @ number_to_string ident @ '' in Ekasi Cart API'')) in
      case transformOrderForCellerHut D updateOrderDto of
        Inl error \<Rightarrow> (failed error, [])
      | Inr cellerHutOrderData \<Rightarrow>
          (let req = put_request (''/orders/'' @ number_to_string ident) cellerHutOrderData []
           in (catch
                 (case api req of
                    Inl error \<Rightarrow> Inl error
                  | Inr response \<Rightarrow> transformed D (data response))
                 failed,
               [req])))"

definition cancel :: "deps \<Rightarrow> api \<Rightarrow> number \<Rightarrow> outcome" where
  "cancel D api ident =
     (let req = post_request (''/orders/'' @ number_to_string ident @ ''/cancel'') JUndefined []
      in (catch
            (case api req of
               Inl error \<Rightarrow> Inl error
             | Inr response \<Rightarrow> transformed D (data response))
            (\<lambda>error. throw_Error (''Failed to cancel order '' @ number_to_string ident @ '' in Ekasi Cart API'')),
          [req]))"

definition getOrderStatus :: "deps \<Rightarrow> api \<Rightarrow> number \<Rightarrow> outcome" where
  "getOrderStatus D api ident =
     (let req = get_request (''/orders/'' @ number_to_string ident @ ''/status'') JUndefined []
      in (catch
            (case api req of
               Inl error \<Rightarrow> Inl error
             | Inr response \<Rightarrow>
                 (if nullish (data response) then Inl TypeError
                  else Inr (JObj
                    [(''id'', js_get (data response) ''id''),
                     (''order_status'',
                        js_or (js_get (data response) ''order_status'') (OrderStatusType_PENDING D)),
                     (''payment_status'',
                        js_or (js_get (data response) ''payment_status'') (PaymentStatusType_PENDING D)),
                     (''updated_at'', js_get (data response) ''updated_at'')])))
            (\<lambda>error. throw_Error (''Failed to get status for order '' @ number_to_string ident)),
          [req]))"

definition updateOrderStatus :: "deps \<Rightarrow> api \<Rightarrow> number \<Rightarrow> json \<Rightarrow> outcome" where
  "updateOrderStatus D api ident status' =
     (let req = put_request (''/orders/'' @ number_to_string ident @ ''/status'')
                  (JObj [(''order_status'', status')]) []
      in (catch
            (case api req of
               Inl error \<Rightarrow> Inl error
             | Inr response \<Rightarrow> transformed D (data response))
            (\<lambda>error. throw_Error (''Failed to update status for order '' @ number_to_string ident)),
          [req]))"

definition updatePaymentStatus :: "deps \<Rightarrow> api \<Rightarrow> number \<Rightarrow> json \<Rightarrow> outcome" where
  "updatePaymentStatus D api ident paymentStatus =
     (let req = put_request (''/orders/'' @ number_to_string ident @ ''/payment-status'')
                  (JObj [(''payment_status'', paymentStatus)]) []
      in (catch
            (case api req of
               Inl error \<Rightarrow> Inl error
             | Inr response \<Rightarrow> transformed D (data response))
            (\<lambda>error. throw_Error (''Failed to update payment status for order '' @ number_to_string ident)),
          [req]))"

subsection \<open>getOrdersByCustomer, getOrdersByShop (lines 260-324)\<close>

text \<open>
  \<open>options: any = {}\<close>: an \<open>undefined\<close> argument is replaced by the empty object; on
  \<open>null\<close> the read \<open>options.page\<close> throws inside the \<open>try\<close>, before any request.
\<close>

definition default_options :: "json \<Rightarrow> json" where
  "default_options options = (if options = JUndefined then JObj [] else options)"

definition getOrdersByCustomer :: "deps \<Rightarrow> api \<Rightarrow> number \<Rightarrow> json \<Rightarrow> outcome" where
  "getOrdersByCustomer D api customerId options' =
     (let options = default_options options';
          failed = (\<lambda>error. throw_Error (''Failed to fetch orders for customer '' @ number_to_string customerId))
      in if nullish options then (failed TypeError, [])
         else
           (let req = get_request ''/orders''
                        (JObj (assign
                           [(''customer_id'', JNum customerId),
                            (''page'', js_or (js_get options ''page'') (JNum 1)),
                            (''limit'', js_or (js_get options ''limit'') (JNum 15))]
                           (spread options))) []
            in (catch
                  (case api req of
                     Inl error \<Rightarrow> Inl error
                   | Inr response \<Rightarrow> order_page D (data response))
                  failed,
                [req])))"

definition getOrdersByShop :: "deps \<Rightarrow> api \<Rightarrow> number \<Rightarrow> json \<Rightarrow> outcome" where
  "getOrdersByShop D api shopId options' =
     (let options = default_options options';
          failed = (\<lambda>error. throw_Error (''Failed to fetch orders for shop '' @ number_to_string shopId))
      in if nullish options then (failed TypeError, [])
         else
           (let req = get_request ''/orders''
                        (JObj (assign
                           [(''shop_id'', JNum shopId),
                            (''page'', js_or (js_get options ''page'') (JNum 1)),
                            (''limit'', js_or (js_get options ''limit'') (JNum 15))]
                           (spread options))) []
            in (catch
                  (case api req of
                     Inl error \<Rightarrow> Inl error
                   | Inr response \<Rightarrow> order_page D (data response))
                  failed,
                [req])))"

subsection \<open>processPayment, getOrderInvoice, getOrderTracking (lines 329-383)\<close>

definition processPayment :: "api \<Rightarrow> number \<Rightarrow> json \<Rightarrow> outcome" where
  "processPayment api orderId paymentData =
     (let req = post_request (''/orders/'' @ number_to_string orderId @ ''/payment'') paymentData []
      in (catch
            (case api req of
               Inl error \<Rightarrow> Inl error
             | Inr response \<Rightarrow>
                 (if nullish (data response) then Inl TypeError
                  else Inr (JObj
                    [(''success'', js_or (js_get (data response) ''success'') (JBool True)),
                     (''payment_intent'', js_get (data response) ''payment_intent''),
                     (''transaction_id'', js_get (data response) ''transaction_id''),
                     (''message'',
                        js_or (js_get (data response) ''message'')
                          (JStr ''Payment processed successfully''))])))
            (\<lambda>error. throw_Error (''Failed to process payment for order '' @ number_to_string orderId)),
          [req]))"

definition getOrderInvoice :: "api \<Rightarrow> number \<Rightarrow> outcome" where
  "getOrderInvoice api orderId =
     (let req = get_request (''/orders/'' @ number_to_string orderId @ ''/invoice'') JUndefined []
      in (catch
            (case api req of
               Inl error \<Rightarrow> Inl error
             | Inr response \<Rightarrow>
                 (if nullish (data response) then Inl TypeError
                  else Inr (JObj
                    [(''invoice_url'', js_get (data response) ''invoice_url''),
                     (''invoice_number'', js_get (data response) ''invoice_number''),
                     (''generated_at'', js_get (data response) ''generated_at'')])))
            (\<lambda>error. throw_Error (''Failed to get invoice for order '' @ number_to_string orderId)),
          [req]))"

definition getOrderTracking :: "api \<Rightarrow> string \<Rightarrow> outcome" where
  "getOrderTracking api trackingNumber =
     (let req = get_request (''/orders/tracking/'' @ trackingNumber) JUndefined []
      in (catch
            (case api req of
               Inl error \<Rightarrow> Inl error
             | Inr response \<Rightarrow>
                 (if nullish (data response) then Inl TypeError
                  else Inr (JObj
                    [(''tracking_number'', js_get (data response) ''tracking_number''),
                     (''status'', js_get (data response) ''status''),
                     (''tracking_events'', js_or (js_get (data response) ''tracking_events'') (JArr [])),
                     (''estimated_delivery'', js_get (data response) ''estimated_delivery''),
                     (''carrier'', js_get (data response) ''carrier'')])))
            (\<lambda>error. throw_Error (''Failed to get tracking for order '' @ trackingNumber)),
          [req]))"

subsection \<open>verifyCheckout, getOrderAnalytics (lines 388-440)\<close>

definition verifyCheckout :: "api \<Rightarrow> json \<Rightarrow> string option \<Rightarrow> outcome" where
  "verifyCheckout api checkoutData token =
     (let req = post_request ''/ecommerce/orders/verify-checkout'' checkoutData (auth_headers token)
      in (catch
            (case api req of
               Inl error \<Rightarrow> Inl error
             | Inr response \<Rightarrow>
                 (if nullish (data response) then Inl TypeError
                  else
                    (let d = js_get (data response) ''data'' in
                     if nullish d then Inl TypeError
                     else Inr (JObj
                       [(''unavailable_products'', js_or (js_get d ''unavailable_products'') (JArr [])),
                        (''total_tax'', js_or (js_get d ''total_tax'') (JNum 0)),
                        (''shipping_charge'', js_or (js_get d ''shipping_charge'') (JNum 0)),
                        (''shipping_zone'', js_or (js_get d ''shipping_zone'') (JStr [])),
                        (''estimated_delivery'', js_or (js_get d ''estimated_delivery'') (JStr [])),
                        (''available_coupons'', js_or (js_get d ''available_coupons'') (JArr []))]))))
            (\<lambda>error. throw_Error ''Failed to verify checkout data''),
          [req]))"

definition zero_analytics :: json where
  "zero_analytics =
     JObj [(''total_orders'', JNum 0), (''total_revenue'', JNum 0), (''pending_orders'', JNum 0),
           (''completed_orders'', JNum 0), (''cancelled_orders'', JNum 0),
           (''average_order_value'', JNum 0)]"

definition getOrderAnalytics :: "api \<Rightarrow> number option \<Rightarrow> outcome" where
  "getOrderAnalytics api shopId =
     (let req = get_request ''/orders/analytics''
                  (JObj (case shopId of
                           Some n \<Rightarrow> (if n \<noteq> 0 then [(''shop_id'', JNum n)] else [])
                         | None \<Rightarrow> [])) []
      in (catch
            (case api req of
               Inl error \<Rightarrow> Inl error
             | Inr response \<Rightarrow>
                 (if nullish (data response) then Inl TypeError
                  else Inr (JObj
                    [(''total_orders'', js_or (js_get (data response) ''total_orders'') (JNum 0)),
                     (''total_revenue'', js_or (js_get (data response) ''total_revenue'') (JNum 0)),
                     (''pending_orders'', js_or (js_get (data response) ''pending_orders'') (JNum 0)),
                     (''completed_orders'', js_or (js_get (data response) ''completed_orders'') (JNum 0)),
                     (''cancelled_orders'', js_or (js_get (data response) ''cancelled_orders'') (JNum 0)),
                     (''average_order_value'',
                        js_or (js_get (data response) ''average_order_value'') (JNum 0))])))
            (\<lambda>error. Inr zero_analytics),
          [req]))"

subsection \<open>The payment-first flow (lines 448-559)\<close>

text \<open>
  The \<open>catch\<close> of the two payment-first calls (lines 466-473 and 503-510): when the
  caught value has a \<open>response\<close>, the new error's message is the body's \<open>message\<close>
  or, when that is falsy, \<open>with_response\<close>; without a response it is \<open>without_response\<close>.
  Reading \<open>message\<close> of a body that is \<open>undefined\<close> or \<open>null\<close> throws out of the handler.
\<close>

definition forward_message :: "string \<Rightarrow> string \<Rightarrow> thrown \<Rightarrow> thrown + json" where
  "forward_message with_response without_response error =
     (case response_of error of
        Some r \<Rightarrow>
          (if nullish (data r) then Inl TypeError
           else (case to_string (js_or (js_get (data r) ''message'') (JStr with_response)) of
                   None \<Rightarrow> Inl TypeError
                 | Some m \<Rightarrow> throw_Error m))
      | None \<Rightarrow> throw_Error without_response)"

definition validateCheckoutForPayment :: "api \<Rightarrow> json \<Rightarrow> string option \<Rightarrow> outcome" where
  "validateCheckoutForPayment api checkoutData token =
     (let req = post_request ''/ecommerce/checkout/validate'' checkoutData (auth_headers token)
      in (catch
            (case api req of
               Inl error \<Rightarrow> Inl error
             | Inr response \<Rightarrow>
                 (if nullish (data response) then Inl TypeError
                  else
                    (let d = js_get (data response) ''data'' in
                     if nullish d then Inl TypeError
                     else Inr (JObj
                       [(''sessionId'', js_get d ''sessionId''),
                        (''validated'', js_get d ''validated''),
                        (''message'', js_get (data response) ''message'')]))))
            (forward_message ''Failed to validate checkout'' ''Failed to validate checkout for payment''),
          [req]))"

definition initiatePaymentFirst :: "api \<Rightarrow> json \<Rightarrow> string option \<Rightarrow> outcome" where
  "initiatePaymentFirst api paymentData token =
     (let req = post_request ''/ecommerce/payments/initiate-payment-first'' paymentData
                  (auth_headers token)
      in (catch
            (case api req of
               Inl error \<Rightarrow> Inl error
             | Inr response \<Rightarrow>
                 (if nullish (data response) then Inl TypeError
                  else Inr (JObj
                    [(''transactionId'', js_get (data response) ''transactionId''),
                     (''checkoutId'', js_get (data response) ''checkoutId''),
                     (''paymentUrl'', js_get (data response) ''paymentUrl''),
                     (''status'', js_get (data response) ''status''),
                     (''message'', js_get (data response) ''message'')])))
            (forward_message ''Failed to initiate payment'' ''Failed to initiate payment''),
          [req]))"

definition getCheckoutSession :: "api \<Rightarrow> string \<Rightarrow> string option \<Rightarrow> outcome" where
  "getCheckoutSession api sessionId token =
     (let req = get_request (''/ecommerce/checkout/session/'' @ sessionId) JUndefined
                  (auth_headers token)
      in (catch
            (case api req of
               Inl error \<Rightarrow> Inl error
             | Inr response \<Rightarrow>
                 (if nullish (data response) then Inl TypeError
                  else Inr (js_get (data response) ''data'')))
            (\<lambda>error. throw_Error ''Failed to get checkout session''),
          [req]))"

text \<open>
  \<open>verifyPaymentForOrder\<close> prints \<open>data.checkoutId\<close> first, inside the \<open>try\<close>: on an
  argument that is \<open>undefined\<close> or \<open>null\<close> the read throws before any request.
\<close>

definition verifyPaymentForOrder :: "api \<Rightarrow> json \<Rightarrow> string option \<Rightarrow> outcome" where
  "verifyPaymentForOrder api data' token =
     (let failed = (\<lambda>error. throw_Error ''Failed to verify payment for order'') in
      if nullish data' then (failed TypeError, [])
      else
        (let req = post_request ''/ecommerce/payments/verify-for-order'' data' (auth_headers token)
         in (catch
               (case api req of
                  Inl error \<Rightarrow> Inl error
                | Inr response \<Rightarrow> Inr (data response))
               failed,
             [req])))"

subsection \<open>The call surface\<close>

text \<open>One constructor per public method of the facade, with the method's arguments.\<close>

datatype operation =
    Create json "string option"
  | GetOrders GetOrdersDto "string option"
  | GetOrderByIdOrTrackingNumber string "string option"
  | Update number json
  | Cancel number
  | GetOrderStatus number
  | UpdateOrderStatus number json
  | UpdatePaymentStatus number json
  | GetOrdersByCustomer number json
  | GetOrdersByShop number json
  | ProcessPayment number json
  | GetOrderInvoice number
  | GetOrderTracking string
  | VerifyCheckout json "string option"
  | GetOrderAnalytics "number option"
  | ValidateCheckoutForPayment json "string option"
  | InitiatePaymentFirst json "string option"
  | GetCheckoutSession string "string option"
  | VerifyPaymentForOrder json "string option"

fun invoke :: "deps \<Rightarrow> api \<Rightarrow> operation \<Rightarrow> outcome" where
  "invoke D api (Create dto token) = create D api dto token"
| "invoke D api (GetOrders dto token) = getOrders D api dto token"
| "invoke D api (GetOrderByIdOrTrackingNumber ident token) = getOrderByIdOrTrackingNumber D api ident token"
| "invoke D api (Update ident dto) = update D api ident dto"
| "invoke D api (Cancel ident) = cancel D api ident"
| "invoke D api (GetOrderStatus ident) = getOrderStatus D api ident"
| "invoke D api (UpdateOrderStatus ident s) = updateOrderStatus D api ident s"
| "invoke D api (UpdatePaymentStatus ident s) = updatePaymentStatus D api ident s"
| "invoke D api (GetOrdersByCustomer customerId options) = getOrdersByCustomer D api customerId options"
| "invoke D api (GetOrdersByShop shopId options) = getOrdersByShop D api shopId options"
| "invoke D api (ProcessPayment orderId paymentData) = processPayment api orderId paymentData"
| "invoke D api (GetOrderInvoice orderId) = getOrderInvoice api orderId"
| "invoke D api (GetOrderTracking trackingNumber) = getOrderTracking api trackingNumber"
| "invoke D api (VerifyCheckout checkoutData token) = verifyCheckout api checkoutData token"
| "invoke D api (GetOrderAnalytics shopId) = getOrderAnalytics api shopId"
| "invoke D api (ValidateCheckoutForPayment checkoutData token) = validateCheckoutForPayment api checkoutData token"
| "invoke D api (InitiatePaymentFirst paymentData token) = initiatePaymentFirst api paymentData token"
| "invoke D api (GetCheckoutSession sessionId token) = getCheckoutSession api sessionId token"
| "invoke D api (VerifyPaymentForOrder d token) = verifyPaymentForOrder api d token"

section \<open>The shapes and messages the specification names\<close>

text \<open>
  The success envelope in the specification's words: an object
  \<open>{status: "success", data: D}\<close> with \<open>D\<close> defined; \<open>envelope_payload\<close> is \<open>Some D\<close> on
  such a body and \<open>None\<close> on every other one.
\<close>

definition envelope_payload :: "json \<Rightarrow> json option" where
  "envelope_payload b =
     (case b of
        JObj kvs \<Rightarrow>
          (if map_of kvs ''status'' = Some (JStr ''success'') then
             (case map_of kvs ''data'' of
                Some D \<Rightarrow> (if D = JUndefined then None else Some D)
              | None \<Rightarrow> None)
           else None)
      | _ \<Rightarrow> None)"

text \<open>The error envelope: an object whose \<open>status\<close> is \<open>"error"\<close>.\<close>

definition error_envelope :: "json \<Rightarrow> bool" where
  "error_envelope b =
     (case b of JObj kvs \<Rightarrow> map_of kvs ''status'' = Some (JStr ''error'') | _ \<Rightarrow> False)"

definition carries_error_envelope :: "thrown \<Rightarrow> bool" where
  "carries_error_envelope error =
     (case response_of error of Some r \<Rightarrow> error_envelope (data r) | None \<Rightarrow> False)"

text \<open>
  The fixed message each method's \<open>catch\<close> raises, by operation; \<open>None\<close> for the three
  methods whose \<open>catch\<close> does something else (the two payment-first calls and
  \<open>getOrderAnalytics\<close>).
\<close>

fun failure_message :: "operation \<Rightarrow> string option" where
  "failure_message (Create dto token) = Some ''Failed to create order in Ekasi Cart API''"
| "failure_message (GetOrders dto token) = Some ''Failed to fetch orders from Ekasi Cart API''"
| "failure_message (GetOrderByIdOrTrackingNumber ident token) =
     Some (''Order with ID/tracking \"'' @ ident @ ''\" not found'')"
| "failure_message (Update ident dto) =
     Some (''Failed to update order '' @ number_to_string ident @ '' in Ekasi Cart API'')"
| "failure_message (Cancel ident) =
     Some (''Failed to cancel order '' @ number_to_string ident @ '' in Ekasi Cart API'')"
| "failure_message (GetOrderStatus ident) = Some (''Failed to get status for order '' @ number_to_string ident)"
| "failure_message (UpdateOrderStatus ident s) =
     Some (''Failed to update status for order '' @ number_to_string ident)"
| "failure_message (UpdatePaymentStatus ident s) =
     Some (''Failed to update payment status for order '' @ number_to_string ident)"
| "failure_message (GetOrdersByCustomer customerId options) =
     Some (''Failed to fetch orders for customer '' @ number_to_string customerId)"
| "failure_message (GetOrdersByShop shopId options) =
     Some (''Failed to fetch orders for shop '' @ number_to_string shopId)"
| "failure_message (ProcessPayment orderId paymentData) =
     Some (''Failed to process payment for order '' @ number_to_string orderId)"
| "failure_message (GetOrderInvoice orderId) = Some (''Failed to get invoice for order '' @ number_to_string orderId)"
| "failure_message (GetOrderTracking trackingNumber) =
     Some (''Failed to get tracking for order '' @ trackingNumber)"
| "failure_message (VerifyCheckout checkoutData token) = Some ''Failed to verify checkout data''"
| "failure_message (GetOrderAnalytics shopId) = None"
| "failure_message (ValidateCheckoutForPayment checkoutData token) = None"
| "failure_message (InitiatePaymentFirst paymentData token) = None"
| "failure_message (GetCheckoutSession sessionId token) = Some ''Failed to get checkout session''"
| "failure_message (VerifyPaymentForOrder d token) = Some ''Failed to verify payment for order''"

fun payment_first :: "operation \<Rightarrow> bool" where
  "payment_first (ValidateCheckoutForPayment checkoutData token) = True"
| "payment_first (InitiatePaymentFirst paymentData token) = True"
| "payment_first op = False"

text \<open>
  Reading a decimal numeral, written independently of the printing above: the digits of
  a natural number without a leading zero (the numeral \<open>0\<close> itself apart), and for a
  negative integer a minus sign before the numeral of a positive one. Anything else has
  no value.
\<close>

definition digit_value :: "char \<Rightarrow> nat option" where
  "digit_value c = map_of (zip ''0123456789'' [0..<10]) c"

fun digits_value :: "nat \<Rightarrow> string \<Rightarrow> nat option" where
  "digits_value acc [] = Some acc"
| "digits_value acc (c # cs) =
     (case digit_value c of None \<Rightarrow> None | Some d \<Rightarrow> digits_value (10 * acc + d) cs)"

definition nat_value :: "string \<Rightarrow> nat option" where
  "nat_value s =
     (if s = [] \<or> (hd s = CHR ''0'' \<and> tl s \<noteq> []) then None else digits_value 0 s)"

definition decimal_value :: "string \<Rightarrow> int option" where
  "decimal_value s =
     (case s of
        [] \<Rightarrow> None
      | c # cs \<Rightarrow>
          (if c = CHR ''-'' then
             (case nat_value cs of
                Some n \<Rightarrow> (if n = 0 then None else Some (- int n))
              | None \<Rightarrow> None)
           else map_option int (nat_value s)))"

text \<open>Every request of the list was rejected.\<close>

definition all_rejected :: "api \<Rightarrow> request list \<Rightarrow> bool" where
  "all_rejected api reqs = list_all (\<lambda>req. isl (api req)) reqs"

section \<open>Sample exchanges\<close>

text \<open>
  Stand-ins for the collaborators, used at concrete inputs only: the order transformer
  keeps the properties of an object and throws on anything else, the pagination is a
  single total, the request transformer and \<open>Number\<close> return their argument.
\<close>

definition stub_deps :: deps where
  "stub_deps =
     \<lparr>transformCellerHutOrder = (\<lambda>d. case d of JObj kvs \<Rightarrow> Inr kvs | _ \<Rightarrow> Inl TypeError),
      transformPagination = (\<lambda>d. Inr (JObj [(''total'', JNum 0)])),
      transformOrderForCellerHut = (\<lambda>d. Inr d),
      Number = (\<lambda>v. v),
      OrderStatusType_PENDING = JStr ''pending'',
      PaymentStatusType_PENDING = JStr ''pending''\<rparr>"

text \<open>A 200 response with the given body, and the error axios raises on a 4xx or 5xx one.\<close>

definition ok :: "json \<Rightarrow> response" where
  "ok d = \<lparr>status = 200, statusText = ''OK'', data = d\<rparr>"

definition http_error :: "int \<Rightarrow> json \<Rightarrow> thrown" where
  "http_error n d =
     AxiosError (Some (if n < 500 then ''ERR_BAD_REQUEST'' else ''ERR_BAD_RESPONSE''))
       (''Request failed with status code '' @ decimal_int n)
       (Some \<lparr>status = n, statusText = [], data = d\<rparr>)"

text \<open>The upstream's error envelope with a message and no field errors.\<close>

definition error_body :: "string \<Rightarrow> json" where
  "error_body m = JObj [(''status'', JStr ''error''), (''message'', JStr m), (''errors'', JObj [])]"

text \<open>The upstream's success envelope around a payload.\<close>

definition success_body :: "json \<Rightarrow> json" where
  "success_body d = JObj [(''status'', JStr ''success''), (''message'', JStr ''OK''), (''data'', d)]"

text \<open>The mock upstream body of the create scenario, and a storefront draft.\<close>

definition mock_create_body :: json where
  "mock_create_body =
     JObj [(''order'', JObj [(''id'', JNum 1), (''tracking_number'', JStr ''T1'')]),
           (''payment'', JObj [(''url'', JStr ''https://pay'')])]"

definition draft_order :: json where
  "draft_order = JObj [(''items'', JArr [JObj [(''product_id'', JNum 9)]]), (''customer'', JObj [(''id'', JNum 3)])]"

text \<open>
  An upstream that refuses every request with a 400 and an error envelope, seen through
  the adapter; and one that refuses with a bare \<open>{message: ...}\<close> body.
\<close>

definition upstream_down :: api where
  "upstream_down = cellerHutAPI None (\<lambda>req. Inl (http_error 400 (error_body ''Cart is empty'')))"

definition plain_refusal :: api where
  "plain_refusal =
     cellerHutAPI None (\<lambda>req. Inl (http_error 400 (JObj [(''message'', JStr ''Cart is empty'')])))"



section \<open>Properties\<close>

lemmas facade_defs =
  create_def getOrders_def getOrderByIdOrTrackingNumber_def update_def cancel_def
  getOrderStatus_def updateOrderStatus_def updatePaymentStatus_def getOrdersByCustomer_def
  getOrdersByShop_def processPayment_def getOrderInvoice_def getOrderTracking_def
  verifyCheckout_def getOrderAnalytics_def validateCheckoutForPayment_def
  initiatePaymentFirst_def getCheckoutSession_def verifyPaymentForOrder_def

lemmas adapter_defs =
  cellerHutAPI_def request_interceptor_def onFulfilled_def onRejected_def network_errors_def

lemmas sample_defs =
  stub_deps_def ok_def http_error_def error_body_def success_body_def

lemmas request_defs = get_request_def post_request_def put_request_def auth_headers_def

lemma catch_Inl [simp]: "catch (Inl e) h = h e"
  by (simp add: catch_def)

lemma catch_Inr [simp]: "catch (Inr v) h = Inr v"
  by (simp add: catch_def)

lemma onFulfilled_payload:
  "envelope_payload (data r) = Some D \<Longrightarrow> onFulfilled r = r\<lparr>data := D\<rparr>"
  by (auto simp: envelope_payload_def onFulfilled_def split: json.splits if_splits option.splits)

lemma onFulfilled_other:
  "envelope_payload (data r) = None \<Longrightarrow> onFulfilled r = r"
  by (auto simp: envelope_payload_def onFulfilled_def split: json.splits if_splits option.splits)

lemma error_envelope_get:
  "truthy b \<and> js_get b ''status'' = JStr ''error'' \<longleftrightarrow> error_envelope b"
  by (cases b) (auto simp: error_envelope_def split: option.splits)

lemma rejected_fixed:
  "failure_message op = Some m \<Longrightarrow> all_rejected api (snd (invoke D api op)) \<Longrightarrow>
   fst (invoke D api op) = Inl (Error m None None)"
  by (cases op)
     (auto simp: facade_defs all_rejected_def throw_Error_def Let_def isl_def
           split: sum.splits if_splits)

lemma forward_message_string:
  "response_of error = Some r \<Longrightarrow> data r = JObj kvs \<Longrightarrow> map_of kvs ''message'' = Some (JStr M) \<Longrightarrow>
   M \<noteq> [] \<Longrightarrow> forward_message a b error = Inl (Error M None None)"
  by (simp add: forward_message_def js_or_def throw_Error_def)

lemma payment_first_forward:
  "payment_first op \<Longrightarrow> snd (invoke D api op) = [req] \<Longrightarrow> api req = Inl error \<Longrightarrow>
   response_of error = Some r \<Longrightarrow> data r = JObj kvs \<Longrightarrow> map_of kvs ''message'' = Some (JStr M) \<Longrightarrow>
   M \<noteq> [] \<Longrightarrow> fst (invoke D api op) = Inl (Error M None None)"
  by (cases op)
     (auto simp: validateCheckoutForPayment_def initiatePaymentFirst_def Let_def forward_message_string)

lemma rejected_raises:
  "all_rejected api (snd (invoke D api op)) \<Longrightarrow> \<not> isl (fst (invoke D api op)) \<Longrightarrow>
   \<exists>shopId. op = GetOrderAnalytics shopId"
  by (cases op)
     (auto simp: facade_defs all_rejected_def throw_Error_def Let_def isl_def forward_message_def
           split: sum.splits if_splits option.splits)

subsection \<open>Decimal numerals\<close>

text \<open>
  Printing and reading agree: the numeral printed for an integer reads as that integer,
  and it is the only string that does.
\<close>

lemma digit_value_digit: "d < 10 \<Longrightarrow> digit_value (''0123456789'' ! d) = Some d"
proof -
  assume "d < 10"
  then have "d \<in> {0, 1, 2, 3, 4, 5, 6, 7, 8, 9}" by auto
  then show ?thesis
    by (auto simp: digit_value_def upt_conv_Cons)
qed

lemma digit_value_char: "digit_value c = Some d \<Longrightarrow> d < 10 \<and> c = ''0123456789'' ! d"
  by (auto simp: digit_value_def upt_conv_Cons split: if_splits)

lemma digit_not_minus: "digit_value (CHR ''-'') = None"
  by (simp add: digit_value_def upt_conv_Cons)

lemma digits_value_snoc:
  "digits_value acc (s @ [c]) =
     (case digits_value acc s of
        None \<Rightarrow> None
      | Some m \<Rightarrow> (case digit_value c of None \<Rightarrow> None | Some d \<Rightarrow> Some (10 * m + d)))"
  by (induction s arbitrary: acc) (auto split: option.splits)

lemma digits_value_decimal_nat: "digits_value 0 (decimal_nat n) = Some n"
proof (induction n rule: decimal_nat.induct)
  case (1 n)
  show ?case
  proof (cases "n < 10")
    case True
    then show ?thesis
      by (simp add: decimal_nat.simps[of n] digit_value_digit)
  next
    case False
    with 1 have "digits_value 0 (decimal_nat (n div 10)) = Some (n div 10)" by simp
    with False show ?thesis
      by (simp add: decimal_nat.simps[of n] digits_value_snoc digit_value_digit)
  qed
qed

lemma decimal_nat_nonempty: "decimal_nat n \<noteq> []"
  by (subst decimal_nat.simps) simp

lemma hd_digit_zero: "d < 10 \<Longrightarrow> ''0123456789'' ! d = CHR ''0'' \<longleftrightarrow> d = 0"
proof -
  assume "d < 10"
  then have "d \<in> {0, 1, 2, 3, 4, 5, 6, 7, 8, 9}" by auto
  then show ?thesis by auto
qed

lemma hd_decimal_nat: "0 < n \<Longrightarrow> hd (decimal_nat n) \<noteq> CHR ''0''"
proof (induction n rule: decimal_nat.induct)
  case (1 n)
  show ?case
  proof (cases "n < 10")
    case True
    with 1(2) hd_digit_zero[of n] show ?thesis
      by (simp add: decimal_nat.simps[of n])
  next
    case False
    then have "0 < n div 10" by simp
    with 1(1) False have "hd (decimal_nat (n div 10)) \<noteq> CHR ''0''" by simp
    with False show ?thesis
      by (simp add: decimal_nat.simps[of n] decimal_nat_nonempty)
  qed
qed

lemma decimal_nat_0: "decimal_nat 0 = ''0''"
  by (simp add: decimal_nat.simps)

lemma nat_value_decimal_nat: "nat_value (decimal_nat n) = Some n"
proof (cases "n = 0")
  case True
  then show ?thesis by (simp add: nat_value_def decimal_nat_0 digit_value_def upt_conv_Cons)
next
  case False
  then have "hd (decimal_nat n) \<noteq> CHR ''0''" using hd_decimal_nat by simp
  then show ?thesis
    by (simp add: nat_value_def decimal_nat_nonempty digits_value_decimal_nat)
qed

lemma hd_decimal_nat_not_minus: "hd (decimal_nat n) \<noteq> CHR ''-''"
proof -
  have "digits_value 0 (decimal_nat n) = Some n" by (rule digits_value_decimal_nat)
  moreover obtain c cs where "decimal_nat n = c # cs"
    using decimal_nat_nonempty by (cases "decimal_nat n") auto
  ultimately show ?thesis
    using digit_not_minus by (auto split: option.splits)
qed

lemma decimal_value_decimal_int: "decimal_value (decimal_int i) = Some i"
proof (cases "i < 0")
  case True
  then have "nat (- i) \<noteq> 0" by simp
  with True show ?thesis
    by (simp add: decimal_value_def decimal_int_def nat_value_decimal_nat)
next
  case False
  obtain c cs where cs: "decimal_nat (nat i) = c # cs"
    using decimal_nat_nonempty by (cases "decimal_nat (nat i)") auto
  with hd_decimal_nat_not_minus[of "nat i"] have "c \<noteq> CHR ''-''" by simp
  with False cs nat_value_decimal_nat[of "nat i"] show ?thesis
    by (simp add: decimal_value_def decimal_int_def)
qed

lemma nat_value_unique: "nat_value s = Some n \<Longrightarrow> s = decimal_nat n"
proof (induction s arbitrary: n rule: rev_induct)
  case Nil
  then show ?case by (simp add: nat_value_def)
next
  case (snoc c t)
  from snoc.prems have canon: "\<not> (hd (t @ [c]) = CHR ''0'' \<and> tl (t @ [c]) \<noteq> [])"
    and val: "digits_value 0 (t @ [c]) = Some n"
    by (auto simp: nat_value_def split: if_splits)
  from val obtain m d where m: "digits_value 0 t = Some m" and d: "digit_value c = Some d"
    and n: "n = 10 * m + d"
    by (auto simp: digits_value_snoc split: option.splits)
  from d have d10: "d < 10" and c: "c = ''0123456789'' ! d"
    using digit_value_char by auto
  show ?case
  proof (cases "t = []")
    case True
    with m have "m = 0" by simp
    with n d10 c True show ?thesis by (simp add: decimal_nat.simps[of d])
  next
    case False
    with canon have hd: "hd t \<noteq> CHR ''0''" by (cases t) auto
    with False m have "nat_value t = Some m" by (simp add: nat_value_def)
    then have t: "t = decimal_nat m" by (rule snoc.IH)
    have "m \<noteq> 0"
    proof
      assume "m = 0"
      with t hd show False by (simp add: decimal_nat_0)
    qed
    with n d10 have "\<not> n < 10" "n div 10 = m" "n mod 10 = d" by auto
    with t c show ?thesis by (simp add: decimal_nat.simps[of n])
  qed
qed

lemma decimal_value_unique: "decimal_value s = Some i \<Longrightarrow> s = decimal_int i"
proof (cases s)
  case Nil
  assume "decimal_value s = Some i"
  with Nil show ?thesis by (simp add: decimal_value_def)
next
  case (Cons c cs)
  assume v: "decimal_value s = Some i"
  show ?thesis
  proof (cases "c = CHR ''-''")
    case True
    with v Cons obtain n where n: "nat_value cs = Some n" "n \<noteq> 0" "i = - int n"
      by (auto simp: decimal_value_def split: option.splits if_splits)
    then have "cs = decimal_nat n" using nat_value_unique by simp
    with n True Cons show ?thesis by (simp add: decimal_int_def)
  next
    case False
    with v Cons obtain n where n: "nat_value s = Some n" "i = int n"
      by (auto simp: decimal_value_def)
    then have "s = decimal_nat n" using nat_value_unique by simp
    with n show ?thesis by (simp add: decimal_int_def)
  qed
qed

lemma number_to_string_42: "number_to_string 42 = ''42''"
  by (simp add: number_to_string_def decimal_int_def decimal_nat.simps)

lemma number_to_string_5: "number_to_string 5 = ''5''"
  by (simp add: number_to_string_def decimal_int_def decimal_nat.simps)

lemma tracking_changes_order:
  "api (get_request (''/ecommerce/orders/'' @ ident) JUndefined (auth_headers token)) = Inl error \<Longrightarrow>
   api (get_request (''/ecommerce/orders/tracking/'' @ ident) JUndefined (auth_headers token)) = Inr response \<Longrightarrow>
   transformCellerHutOrder D (data response) = Inr transformedOrder \<Longrightarrow>
   truthy (js_get (data response) ''tracking_enabled'') \<Longrightarrow>
   truthy (js_get (data response) ''tookan_job_id'') \<Longrightarrow>
   map_of transformedOrder ''gps_tracking'' \<noteq> Some (gps_tracking (data response)) \<Longrightarrow>
   fst (getOrderByIdOrTrackingNumber D api ident token) \<noteq> Inr (JObj transformedOrder)"
proof
  assume a: "api (get_request (''/ecommerce/orders/'' @ ident) JUndefined (auth_headers token)) = Inl error"
    and b: "api (get_request (''/ecommerce/orders/tracking/'' @ ident) JUndefined (auth_headers token)) = Inr response"
    and c: "transformCellerHutOrder D (data response) = Inr transformedOrder"
    and d: "truthy (js_get (data response) ''tracking_enabled'')"
    and e: "truthy (js_get (data response) ''tookan_job_id'')"
    and f: "map_of transformedOrder ''gps_tracking'' \<noteq> Some (gps_tracking (data response))"
    and g: "fst (getOrderByIdOrTrackingNumber D api ident token) = Inr (JObj transformedOrder)"
  from d have "\<not> nullish (data response)"
    by (cases "data response") auto
  with a b c d e g
  have "AList.update ''gps_tracking'' (gps_tracking (data response)) transformedOrder = transformedOrder"
    by (auto simp: getOrderByIdOrTrackingNumber_def order_with_tracking_def Let_def throw_Error_def
             split: option.splits)
  then have "map_of transformedOrder ''gps_tracking'' = Some (gps_tracking (data response))"
    by (metis update_conv' fun_upd_same)
  with f show False by simp
qed

subsection \<open>The response interceptor\<close>

text \<open>
  Claim C1. When the body of a response is an object \<open>{status: "success", data: D}\<close>
  with \<open>D\<close> defined, the success handler returns the response with \<open>D\<close> as its body and
  every other field as it was; on a body of any other shape it returns the response as
  it received it; and when the payload \<open>D\<close> is not itself such an envelope, handling the
  unwrapped response again changes nothing.
\<close>

theorem response_interceptor_unwraps:
  "(envelope_payload (data r) = Some D \<longrightarrow> onFulfilled r = r\<lparr>data := D\<rparr>) \<and>
   (envelope_payload (data r) = None \<longrightarrow> onFulfilled r = r) \<and>
   (envelope_payload (data r) = Some D \<and> envelope_payload D = None \<longrightarrow>
      onFulfilled (onFulfilled r) = onFulfilled r)"
  using onFulfilled_payload[of r D] onFulfilled_other[of r] onFulfilled_other[of "r\<lparr>data := D\<rparr>"]
  by auto

text \<open>
  The theorem at an enveloped order, which is unwrapped once and then stays as it is,
  and at an array body, which passes through.
\<close>

theorem response_interceptor_unwraps_witness:
  "onFulfilled (ok (success_body (JObj [(''id'', JNum 1)]))) = ok (JObj [(''id'', JNum 1)]) \<and>
   onFulfilled (ok (JArr [JNum 1, JNum 2])) = ok (JArr [JNum 1, JNum 2]) \<and>
   onFulfilled (onFulfilled (ok (success_body (JObj [(''id'', JNum 1)]))))
     = onFulfilled (ok (success_body (JObj [(''id'', JNum 1)])))"
proof -
  let ?r = "ok (success_body (JObj [(''id'', JNum 1)]))"
  have wrapped: "envelope_payload (data ?r) = Some (JObj [(''id'', JNum 1)])"
    by (simp add: envelope_payload_def ok_def success_body_def)
  have bare: "envelope_payload (JObj [(''id'', JNum 1)]) = None"
    by (simp add: envelope_payload_def)
  have array: "envelope_payload (data (ok (JArr [JNum 1, JNum 2]))) = None"
    by (simp add: envelope_payload_def ok_def)
  have "onFulfilled ?r = ?r\<lparr>data := JObj [(''id'', JNum 1)]\<rparr>"
    using response_interceptor_unwraps[of ?r "JObj [(''id'', JNum 1)]"] wrapped by blast
  moreover have "onFulfilled (onFulfilled ?r) = onFulfilled ?r"
    using response_interceptor_unwraps[of ?r "JObj [(''id'', JNum 1)]"] wrapped bare by blast
  moreover have "onFulfilled (ok (JArr [JNum 1, JNum 2])) = ok (JArr [JNum 1, JNum 2])"
    using response_interceptor_unwraps[of "ok (JArr [JNum 1, JNum 2])" JNull] array by blast
  ultimately show ?thesis by (simp add: ok_def)
qed

subsection \<open>The error interceptor\<close>

text \<open>
  Claim C3 says the rejected error's message equals the envelope's \<open>message\<close>. On a 500
  response whose envelope has the empty message the handler falls back to its default
  text: the message is \<open>An error occurred\<close>, not the empty string.
\<close>

theorem error_envelope_message_counterexample:
  "js_get (error_body []) ''message'' = JStr [] \<and>
   message_of (onRejected (http_error 500 (error_body []))) = ''An error occurred''"
  by (simp add: onRejected_def http_error_def error_body_def js_or_def)

text \<open>
  Claim C3, amended. For a failed response whose body is an object with \<open>status\<close>
  \<open>"error"\<close> and a string \<open>message\<close> \<open>M\<close>, the handler rejects with an error whose
  \<open>statusCode\<close> is the HTTP status of the response and whose message is \<open>M\<close> when \<open>M\<close>
  is not empty, and \<open>An error occurred\<close> when it is.
\<close>

theorem error_envelope_normalized:
  "response_of error = Some r \<Longrightarrow> data r = JObj kvs \<Longrightarrow>
   map_of kvs ''status'' = Some (JStr ''error'') \<Longrightarrow>
   map_of kvs ''message'' = Some (JStr M) \<Longrightarrow>
   statusCode_of (onRejected error) = Some (status r) \<and>
   message_of (onRejected error) = (if M \<noteq> [] then M else ''An error occurred'')"
  by (auto simp: onRejected_def js_or_def Let_def)

text \<open>The theorem at a 422 response with the message \<open>Out of stock\<close>.\<close>

theorem error_envelope_normalized_witness:
  "statusCode_of (onRejected (http_error 422 (error_body ''Out of stock''))) = Some 422 \<and>
   message_of (onRejected (http_error 422 (error_body ''Out of stock''))) = ''Out of stock''"
  using error_envelope_normalized[of "http_error 422 (error_body ''Out of stock'')"
          "\<lparr>status = 422, statusText = [], data = error_body ''Out of stock''\<rparr>"
          "[(''status'', JStr ''error''), (''message'', JStr ''Out of stock''), (''errors'', JObj [])]"
          "''Out of stock''"]
  by (simp add: http_error_def error_body_def)

text \<open>
  Claim C9. For an error that carries no error envelope: the timeout code
  \<open>ECONNABORTED\<close> is rejected with the fixed timeout message, the code \<open>ERR_NETWORK\<close>
  with the fixed network message, and every other error is rejected as it came.
\<close>

theorem network_errors_fixed:
  "\<not> carries_error_envelope error \<Longrightarrow>
   (code_of error = Some ''ECONNABORTED'' \<longrightarrow>
      onRejected error = Error ''Request timeout - Ekasi Cart API not responding'' None None) \<and>
   (code_of error = Some ''ERR_NETWORK'' \<longrightarrow>
      onRejected error = Error ''Network error - Unable to reach Ekasi Cart API'' None None) \<and>
   (code_of error \<noteq> Some ''ECONNABORTED'' \<and> code_of error \<noteq> Some ''ERR_NETWORK'' \<longrightarrow>
      onRejected error = error)"
  using error_envelope_get
  by (auto simp: carries_error_envelope_def onRejected_def network_errors_def Let_def split: option.splits)

text \<open>
  The theorem at a timeout, at a network failure and at a 404 whose body is plain text.
\<close>

theorem network_errors_fixed_witness:
  "onRejected (AxiosError (Some ''ECONNABORTED'') ''timeout of 12000ms exceeded'' None)
     = Error ''Request timeout - Ekasi Cart API not responding'' None None \<and>
   onRejected (AxiosError (Some ''ERR_NETWORK'') ''Network Error'' None)
     = Error ''Network error - Unable to reach Ekasi Cart API'' None None \<and>
   onRejected (http_error 404 (JStr ''Not Found'')) = http_error 404 (JStr ''Not Found'')"
  using network_errors_fixed[of "AxiosError (Some ''ECONNABORTED'') ''timeout of 12000ms exceeded'' None"]
        network_errors_fixed[of "AxiosError (Some ''ERR_NETWORK'') ''Network Error'' None"]
        network_errors_fixed[of "http_error 404 (JStr ''Not Found'')"]
  by (simp add: carries_error_envelope_def error_envelope_def http_error_def)

subsection \<open>The facade: failures\<close>

text \<open>
  Claim C2 says every method but the two payment-first calls raises a fixed message when
  its call fails, and that the two forward the message of a structured upstream error.
  Against an upstream that refuses every request with the error envelope
  \<open>{status: "error", message: "Cart is empty"}\<close>, \<open>getOrderAnalytics\<close> raises nothing
  and returns the zeroed analytics, and \<open>initiatePaymentFirst\<close> raises its own fixed
  message, not the upstream's.
\<close>

theorem facade_failure_counterexample:
  "fst (invoke stub_deps upstream_down (GetOrderAnalytics None)) = Inr zero_analytics \<and>
   fst (invoke stub_deps upstream_down (InitiatePaymentFirst (JObj []) None))
     = Inl (Error ''Failed to initiate payment'' None None)"
  by (simp add: upstream_down_def getOrderAnalytics_def initiatePaymentFirst_def forward_message_def
        throw_Error_def adapter_defs sample_defs request_defs js_or_def)

text \<open>
  Claim C2, amended. For every method that has a fixed failure message (all but the two
  payment-first calls and \<open>getOrderAnalytics\<close>), when every request it issued was
  rejected it raises an \<open>Error\<close> with that message and with neither \<open>statusCode\<close> nor
  \<open>errors\<close>, whatever the rejection carried. For the two payment-first calls, when the
  rejection the facade catches carries a response whose body has a non-empty string
  \<open>message\<close>, the raised error's message is that string.
\<close>

theorem facade_failure_messages:
  "(failure_message op = Some m \<and> all_rejected api (snd (invoke D api op)) \<longrightarrow>
      fst (invoke D api op) = Inl (Error m None None)) \<and>
   (payment_first op \<and> snd (invoke D api op) = [req] \<and> api req = Inl error \<and>
    response_of error = Some r \<and> data r = JObj kvs \<and> map_of kvs ''message'' = Some (JStr M) \<and>
    M \<noteq> [] \<longrightarrow>
      fst (invoke D api op) = Inl (Error M None None))"
  using rejected_fixed[of op m api D] payment_first_forward[of op D api req error r kvs M]
  by blast

text \<open>
  The theorem at \<open>cancel(5)\<close> against the refusing upstream, and at
  \<open>validateCheckoutForPayment\<close> against an upstream whose 400 body is
  \<open>{message: "Cart is empty"}\<close>.
\<close>

theorem facade_failure_messages_witness:
  "fst (invoke stub_deps upstream_down (Cancel 5))
     = Inl (Error ''Failed to cancel order 5 in Ekasi Cart API'' None None) \<and>
   fst (invoke stub_deps plain_refusal (ValidateCheckoutForPayment (JObj []) None))
     = Inl (Error ''Cart is empty'' None None)"
proof -
  let ?e = "http_error 400 (JObj [(''message'', JStr ''Cart is empty'')])"
  let ?req = "post_request ''/ecommerce/checkout/validate'' (JObj []) (auth_headers None)"
  have named: "failure_message (Cancel 5) = Some ''Failed to cancel order 5 in Ekasi Cart API''"
    by (simp add: number_to_string_5)
  have rejected: "all_rejected upstream_down (snd (invoke stub_deps upstream_down (Cancel 5)))"
    by (simp add: all_rejected_def cancel_def upstream_down_def adapter_defs sample_defs)
  have first: "fst (invoke stub_deps upstream_down (Cancel 5))
                 = Inl (Error ''Failed to cancel order 5 in Ekasi Cart API'' None None)"
    using facade_failure_messages[where op = "Cancel 5" and api = upstream_down and D = stub_deps
            and m = "''Failed to cancel order 5 in Ekasi Cart API''"] named rejected
    by blast
  have issued: "snd (invoke stub_deps plain_refusal (ValidateCheckoutForPayment (JObj []) None)) = [?req]"
    by (simp add: validateCheckoutForPayment_def Let_def)
  have refused: "plain_refusal ?req = Inl ?e"
    by (simp add: plain_refusal_def adapter_defs sample_defs)
  have carried: "response_of ?e = Some \<lparr>status = 400, statusText = [], data = JObj [(''message'', JStr ''Cart is empty'')]\<rparr>"
    by (simp add: sample_defs)
  have second: "fst (invoke stub_deps plain_refusal (ValidateCheckoutForPayment (JObj []) None))
                  = Inl (Error ''Cart is empty'' None None)"
    using facade_failure_messages[where op = "ValidateCheckoutForPayment (JObj []) None"
            and api = plain_refusal and D = stub_deps and req = ?req and error = ?e
            and r = "\<lparr>status = 400, statusText = [], data = JObj [(''message'', JStr ''Cart is empty'')]\<rparr>"
            and kvs = "[(''message'', JStr ''Cart is empty'')]" and M = "''Cart is empty''"]
          issued refused carried
    by simp
  from first second show ?thesis by simp
qed

text \<open>
  Claim C5. When the GET to \<open>/orders/analytics\<close> is rejected, \<open>getOrderAnalytics\<close>
  returns the object of six zeros, having issued that one request, and raises nothing;
  and every other method of the facade raises when every request it issued was rejected.
\<close>

theorem analytics_failure_zeroed:
  "(api (get_request ''/orders/analytics''
          (JObj (case shopId of Some n \<Rightarrow> (if n \<noteq> 0 then [(''shop_id'', JNum n)] else []) | None \<Rightarrow> [])) [])
      = Inl error \<longrightarrow>
    getOrderAnalytics api shopId
      = (Inr (JObj [(''total_orders'', JNum 0), (''total_revenue'', JNum 0),
                    (''pending_orders'', JNum 0), (''completed_orders'', JNum 0),
                    (''cancelled_orders'', JNum 0), (''average_order_value'', JNum 0)]),
         [get_request ''/orders/analytics''
            (JObj (case shopId of Some n \<Rightarrow> (if n \<noteq> 0 then [(''shop_id'', JNum n)] else []) | None \<Rightarrow> [])) []])) \<and>
   (all_rejected api (snd (invoke D api op)) \<and> (\<forall>shopId'. op \<noteq> GetOrderAnalytics shopId') \<longrightarrow>
      isl (fst (invoke D api op)))"
  using rejected_raises[of api D op]
  by (auto simp: getOrderAnalytics_def zero_analytics_def Let_def)

text \<open>
  The theorem at \<open>getOrderAnalytics(3)\<close> and at \<open>processPayment(5, ...)\<close>, both against
  the refusing upstream.
\<close>

theorem analytics_failure_zeroed_witness:
  "getOrderAnalytics upstream_down (Some 3)
     = (Inr (JObj [(''total_orders'', JNum 0), (''total_revenue'', JNum 0), (''pending_orders'', JNum 0),
                   (''completed_orders'', JNum 0), (''cancelled_orders'', JNum 0),
                   (''average_order_value'', JNum 0)]),
        [\<lparr>verb_of = GET, url = ''/orders/analytics'', body = JUndefined,
          params = JObj [(''shop_id'', JNum 3)], headers = []\<rparr>]) \<and>
   isl (fst (invoke stub_deps upstream_down (ProcessPayment 5 (JObj [(''method'', JStr ''card'')]))))"
proof -
  have refused: "upstream_down (get_request ''/orders/analytics''
          (JObj (case Some (3::number) of Some n \<Rightarrow> (if n \<noteq> 0 then [(''shop_id'', JNum n)] else []) | None \<Rightarrow> [])) [])
      = Inl (Error ''Cart is empty'' (Some 400) (Some (JObj [])))"
    by (simp add: upstream_down_def adapter_defs sample_defs js_or_def)
  have rejected: "all_rejected upstream_down
      (snd (invoke stub_deps upstream_down (ProcessPayment 5 (JObj [(''method'', JStr ''card'')]))))"
    by (simp add: all_rejected_def processPayment_def upstream_down_def adapter_defs sample_defs)
  from analytics_failure_zeroed[where api = upstream_down and shopId = "Some 3" and D = stub_deps
         and op = "ProcessPayment 5 (JObj [(''method'', JStr ''card'')])"
         and error = "Error ''Cart is empty'' (Some 400) (Some (JObj []))"]
       refused rejected
  show ?thesis by (simp add: get_request_def)
qed

subsection \<open>The facade: results\<close>




text \<open>
  \<open>getOrders\<close> on a body that is not an array: the list of orders is empty, and the
  rest is the pagination transformer's. When it throws, the method raises its fixed
  message; when it returns, its properties are spread over \<open>{data: []}\<close>, so a property
  \<open>data\<close> among them replaces the empty list.
\<close>

lemma getOrders_non_array:
  "api (get_request ''/ecommerce/orders'' (getOrders_params D dto) (auth_headers token)) = Inr response \<Longrightarrow>
   \<not> isArray (data response) \<Longrightarrow>
   fst (getOrders D api dto token)
     = (case transformPagination D (data response) of
          Inl error \<Rightarrow> Inl (Error ''Failed to fetch orders from Ekasi Cart API'' None None)
        | Inr pagination \<Rightarrow> Inr (JObj (assign [(''data'', JArr [])] (spread pagination))))"
  by (cases "data response")
     (auto simp: getOrders_def order_page_def Let_def throw_Error_def split: sum.splits)

text \<open>
  Claim C7. When the POST to \<open>/ecommerce/orders\<close> answers with an object that has an
  order and a payment (both truthy, as objects are), \<open>create\<close> returns the transformed
  order with \<open>payment\<close> set to that payment, unchanged; when the object has no
  \<open>payment\<close> property, it returns the transformed order with nothing attached.
\<close>

theorem create_attaches_payment:
  "transformOrderForCellerHut D createOrderDto = Inr cellerHutOrderData \<Longrightarrow>
   api (post_request ''/ecommerce/orders'' cellerHutOrderData (auth_headers token)) = Inr response \<Longrightarrow>
   data response = JObj kvs \<Longrightarrow>
   (map_of kvs ''order'' = Some orderData \<and> truthy orderData \<and>
    map_of kvs ''payment'' = Some paymentData \<and> truthy paymentData \<and>
    transformCellerHutOrder D orderData = Inr transformedOrder \<longrightarrow>
      fst (create D api createOrderDto token)
        = Inr (JObj (AList.update ''payment'' paymentData transformedOrder)) \<and>
      js_get (JObj (AList.update ''payment'' paymentData transformedOrder)) ''payment'' = paymentData) \<and>
   (map_of kvs ''payment'' = None \<and>
    transformCellerHutOrder D (js_or (js_get (JObj kvs) ''order'') (JObj kvs)) = Inr transformedOrder \<longrightarrow>
      fst (create D api createOrderDto token) = Inr (JObj transformedOrder))"
  by (auto simp: create_def create_response_def Let_def js_or_def update_conv')

text \<open>
  The theorem at the mock body \<open>{order: {id: 1, ...}, payment: {url: "https://pay"}}\<close>,
  where the result's \<open>payment.url\<close> is \<open>https://pay\<close>, and at a bare order.
\<close>

theorem create_attaches_payment_witness:
  "fst (create stub_deps (cellerHutAPI None (\<lambda>req. Inr (ok mock_create_body))) draft_order None)
     = Inr (JObj [(''id'', JNum 1), (''tracking_number'', JStr ''T1''),
                  (''payment'', JObj [(''url'', JStr ''https://pay'')])]) \<and>
   js_get (js_get (JObj [(''id'', JNum 1), (''tracking_number'', JStr ''T1''),
                  (''payment'', JObj [(''url'', JStr ''https://pay'')])]) ''payment'') ''url''
     = JStr ''https://pay'' \<and>
   fst (create stub_deps (cellerHutAPI None (\<lambda>req. Inr (ok (JObj [(''id'', JNum 1)])))) draft_order None)
     = Inr (JObj [(''id'', JNum 1)])"
proof -
  let ?api = "cellerHutAPI None (\<lambda>req. Inr (ok mock_create_body))"
  let ?bare = "cellerHutAPI None (\<lambda>req. Inr (ok (JObj [(''id'', JNum 1)])))"
  let ?o = "[(''id'', JNum 1), (''tracking_number'', JStr ''T1'')]"
  let ?p = "JObj [(''url'', JStr ''https://pay'')]"
  have sent: "transformOrderForCellerHut stub_deps draft_order = Inr draft_order"
    by (simp add: sample_defs)
  have answered: "?api (post_request ''/ecommerce/orders'' draft_order (auth_headers None)) = Inr (ok mock_create_body)"
    by (simp add: adapter_defs sample_defs request_defs mock_create_body_def)
  have shape: "data (ok mock_create_body) = JObj [(''order'', JObj ?o), (''payment'', ?p)]"
    by (simp add: sample_defs mock_create_body_def)
  have first: "fst (create stub_deps ?api draft_order None) = Inr (JObj (AList.update ''payment'' ?p ?o))"
    using create_attaches_payment[where D = stub_deps and api = ?api and createOrderDto = draft_order
            and cellerHutOrderData = draft_order and token = None and response = "ok mock_create_body"
            and kvs = "[(''order'', JObj ?o), (''payment'', ?p)]" and orderData = "JObj ?o"
            and paymentData = ?p and transformedOrder = ?o]
          sent answered shape
    by (simp add: sample_defs)
  have answered': "?bare (post_request ''/ecommerce/orders'' draft_order (auth_headers None)) = Inr (ok (JObj [(''id'', JNum 1)]))"
    by (simp add: adapter_defs sample_defs request_defs)
  have shape': "data (ok (JObj [(''id'', JNum 1)])) = JObj [(''id'', JNum 1)]"
    by (simp add: sample_defs)
  have second: "fst (create stub_deps ?bare draft_order None) = Inr (JObj [(''id'', JNum 1)])"
    using create_attaches_payment[where D = stub_deps and api = ?bare and createOrderDto = draft_order
            and cellerHutOrderData = draft_order and token = None and response = "ok (JObj [(''id'', JNum 1)])"
            and kvs = "[(''id'', JNum 1)]" and orderData = JNull
            and paymentData = JNull and transformedOrder = "[(''id'', JNum 1)]"]
          sent answered' shape'
    by (simp add: sample_defs js_or_def)
  from first second show ?thesis by simp
qed

text \<open>
  Claim C8. \<open>updateOrderStatus(id, s)\<close> issues exactly one request, a PUT to
  \<open>/orders/{id}/status\<close>, where \<open>{id}\<close> is a decimal numeral that reads as the number
  \<open>id\<close>, with the body \<open>{order_status: s}\<close>; when the request is answered and the order
  transformer accepts the response body, the method returns the transformed body.
\<close>

theorem updateOrderStatus_put:
  "\<exists>path_id.
     decimal_value path_id = Some (sint ident) \<and>
     snd (updateOrderStatus D api ident s)
       = [\<lparr>verb_of = PUT, url = ''/orders/'' @ path_id @ ''/status'',
           body = JObj [(''order_status'', s)], params = JUndefined, headers = []\<rparr>] \<and>
     (api \<lparr>verb_of = PUT, url = ''/orders/'' @ path_id @ ''/status'',
           body = JObj [(''order_status'', s)], params = JUndefined, headers = []\<rparr> = Inr response \<and>
      transformCellerHutOrder D (data response) = Inr transformedOrder \<longrightarrow>
        fst (updateOrderStatus D api ident s) = Inr (JObj transformedOrder))"
proof (intro exI conjI)
  show "decimal_value (number_to_string ident) = Some (sint ident)"
    by (simp add: number_to_string_def decimal_value_decimal_int)
  show "snd (updateOrderStatus D api ident s)
       = [\<lparr>verb_of = PUT, url = ''/orders/'' @ number_to_string ident @ ''/status'',
           body = JObj [(''order_status'', s)], params = JUndefined, headers = []\<rparr>]"
    by (simp add: updateOrderStatus_def put_request_def Let_def)
  show "api \<lparr>verb_of = PUT, url = ''/orders/'' @ number_to_string ident @ ''/status'',
           body = JObj [(''order_status'', s)], params = JUndefined, headers = []\<rparr> = Inr response \<and>
      transformCellerHutOrder D (data response) = Inr transformedOrder \<longrightarrow>
        fst (updateOrderStatus D api ident s) = Inr (JObj transformedOrder)"
    by (auto simp: updateOrderStatus_def put_request_def transformed_def Let_def)
qed

text \<open>
  The theorem at \<open>updateOrderStatus(42, "completed")\<close>: the only numeral that reads as 42
  is \<open>42\<close>, so the request is a PUT to \<open>/orders/42/status\<close> with the body
  \<open>{order_status: "completed"}\<close>, and the answer comes back transformed.
\<close>

theorem updateOrderStatus_put_witness:
  "snd (updateOrderStatus stub_deps
          (cellerHutAPI None (\<lambda>req. Inr (ok (success_body (JObj [(''id'', JNum 42), (''order_status'', JStr ''completed'')])))))
          42 (JStr ''completed''))
     = [\<lparr>verb_of = PUT, url = ''/orders/42/status'',
         body = JObj [(''order_status'', JStr ''completed'')], params = JUndefined, headers = []\<rparr>] \<and>
   fst (updateOrderStatus stub_deps
          (cellerHutAPI None (\<lambda>req. Inr (ok (success_body (JObj [(''id'', JNum 42), (''order_status'', JStr ''completed'')])))))
          42 (JStr ''completed''))
     = Inr (JObj [(''id'', JNum 42), (''order_status'', JStr ''completed'')])"
proof -
  let ?o = "[(''id'', JNum 42), (''order_status'', JStr ''completed'')]"
  let ?api = "cellerHutAPI None (\<lambda>req. Inr (ok (success_body (JObj ?o))))"
  let ?req = "\<lambda>path_id. \<lparr>verb_of = PUT, url = ''/orders/'' @ path_id @ ''/status'',
         body = JObj [(''order_status'', JStr ''completed'')], params = JUndefined, headers = []\<rparr>"
  from updateOrderStatus_put[of 42 stub_deps ?api "JStr ''completed''" "ok (JObj ?o)" ?o]
  obtain path_id where reads: "decimal_value path_id = Some (sint (42::number))"
    and sent: "snd (updateOrderStatus stub_deps ?api 42 (JStr ''completed'')) = [?req path_id]"
    and returned: "?api (?req path_id) = Inr (ok (JObj ?o)) \<and>
        transformCellerHutOrder stub_deps (data (ok (JObj ?o))) = Inr ?o \<longrightarrow>
          fst (updateOrderStatus stub_deps ?api 42 (JStr ''completed'')) = Inr (JObj ?o)"
    by blast
  from reads have "path_id = decimal_int 42"
    using decimal_value_unique[of path_id 42] by simp
  then have path: "path_id = ''42''"
    by (simp add: decimal_int_def decimal_nat.simps)
  have answered: "?api (?req path_id) = Inr (ok (JObj ?o))"
    by (simp add: adapter_defs sample_defs)
  have accepted: "transformCellerHutOrder stub_deps (data (ok (JObj ?o))) = Inr ?o"
    by (simp add: sample_defs)
  from sent returned answered accepted path show ?thesis by simp
qed

text \<open>
  Claim C10 says the \<open>success\<close> flag of \<open>processPayment\<close> is the boolean \<open>true\<close>
  whatever the upstream reports. When the upstream reports \<open>success: 1\<close> the flag is the
  number 1.
\<close>

theorem processPayment_success_counterexample:
  "fst (processPayment
          (cellerHutAPI None (\<lambda>req. Inr (ok (JObj [(''success'', JNum 1), (''transaction_id'', JStr ''t1'')]))))
          7 (JObj [(''method'', JStr ''card'')]))
     = Inr (JObj [(''success'', JNum 1), (''payment_intent'', JUndefined),
                  (''transaction_id'', JStr ''t1''),
                  (''message'', JStr ''Payment processed successfully'')]) \<and>
   JNum 1 \<noteq> JBool True"
  by (simp add: processPayment_def adapter_defs sample_defs request_defs js_or_def)

text \<open>
  Claim C10, amended. Whenever \<open>processPayment\<close> returns, the \<open>success\<close> flag of the
  result is truthy: it is the upstream's \<open>success\<close> value itself when that is truthy,
  and the boolean \<open>true\<close> when the upstream's value is falsy or absent.
\<close>

theorem processPayment_success_truthy:
  "fst (processPayment api orderId paymentData) = Inr result \<Longrightarrow>
   truthy (js_get result ''success'') \<and>
   (\<exists>response.
      api (post_request (''/orders/'' @ number_to_string orderId @ ''/payment'') paymentData []) = Inr response \<and>
      js_get result ''success''
        = (if truthy (js_get (data response) ''success'')
           then js_get (data response) ''success'' else JBool True))"
  by (auto simp: processPayment_def Let_def js_or_def throw_Error_def catch_def
           split: sum.splits if_splits)

text \<open>
  The theorem at an upstream that reports \<open>success: false\<close>: the flag is \<open>true\<close>.
\<close>

theorem processPayment_success_truthy_witness:
  "fst (processPayment
          (cellerHutAPI None (\<lambda>req. Inr (ok (JObj [(''success'', JBool False)]))))
          7 (JObj [(''method'', JStr ''card'')]))
     = Inr (JObj [(''success'', JBool True), (''payment_intent'', JUndefined),
                  (''transaction_id'', JUndefined),
                  (''message'', JStr ''Payment processed successfully'')]) \<and>
   truthy (js_get (JObj [(''success'', JBool True), (''payment_intent'', JUndefined),
                  (''transaction_id'', JUndefined),
                  (''message'', JStr ''Payment processed successfully'')]) ''success'')"
proof -
  let ?api = "cellerHutAPI None (\<lambda>req. Inr (ok (JObj [(''success'', JBool False)])))"
  let ?res = "JObj [(''success'', JBool True), (''payment_intent'', JUndefined),
                  (''transaction_id'', JUndefined),
                  (''message'', JStr ''Payment processed successfully'')]"
  have returned: "fst (processPayment ?api 7 (JObj [(''method'', JStr ''card'')])) = Inr ?res"
    by (simp add: processPayment_def adapter_defs sample_defs request_defs js_or_def)
  from processPayment_success_truthy[OF returned] returned show ?thesis by blast
qed

end
